theory Spec2Isabelle
  imports Complex_Main "HOL-Library.Word"
begin

section \<open>Conventions of the embedding\<close>

text \<open>
  The three native modules of the repository are embedded: the CAN transport
  (\<^verbatim>\<open>src/protocols/isobus_simulator.py\<close>), the irrigation controller
  (\<^verbatim>\<open>src/actuators/irrigation.py\<close>) and the fertilization controller
  (\<^verbatim>\<open>src/actuators/fertilizer.py\<close>).

  \<^item> Python \<^verbatim>\<open>float\<close> quantities (kg, ha, L/min, percent) are \<open>real\<close>: the arithmetic
    is the exact one, rounding error of IEEE doubles is not modelled. The exception is
    \<^verbatim>\<open>recommend_fertilizer\<close>, whose product and one-decimal rate depend on the rounding of
    each operation: there the float arithmetic is a parameter, and binary64 an instance.
  \<^item> Python \<^verbatim>\<open>int\<close> is \<open>int\<close>; \<^verbatim>\<open>bytes\<close> is a list of 8-bit words.
  \<^item> Python \<^verbatim>\<open>str\<close> is \<open>string\<close>; a character outside ASCII is written as the bytes
    of its UTF-8 encoding.
  \<^item> A method that mutates \<^verbatim>\<open>self\<close> takes the object and returns the updated one.
  \<^item> \<^verbatim>\<open>time.time()\<close> and \<^verbatim>\<open>datetime.now()\<close> are a parameter \<open>now\<close> of the method that
    reads the clock; \<^verbatim>\<open>random.uniform\<close> reads an explicit supply of draws.
  \<^item> A raised exception is a value of \<open>py_error\<close>.
  \<^item> \<^verbatim>\<open>print\<close> calls write to the console only and are left out.
  \<^item> The constructors and the methods that assign attributes are embedded; the status
    snapshots (\<^verbatim>\<open>get_status\<close>, \<^verbatim>\<open>get_statistics\<close>, \<^verbatim>\<open>__repr__\<close>), the irrigation schedule and
    \<^verbatim>\<open>variable_rate_apply\<close> are outside this development.
  \<^item> Attributes of the same name in different classes carry the class as a prefix
    (\<open>can_is_active\<close>, \<open>irr_is_active\<close>, \<open>fert_is_active\<close>), as do methods
    (\<open>can_start\<close>, \<open>irr_start\<close>, \<open>fert_apply\<close>).
\<close>

type_synonym byte = "8 word"

datatype py_error =
    ValueError string
  | RuntimeError string
  | KeyError string
  | ZeroDivisionError
  | OverflowError

section \<open>CAN frames: class CANMessage\<close>

record CANMessage =
  can_id :: int
  data :: "byte list"
  is_extended :: bool
  timestamp :: real
  dlc :: nat

text \<open>The three messages of the \<^verbatim>\<open>ValueError\<close>s raised by the constructor.\<close>

definition msg_max_8_bytes :: string where
  "msg_max_8_bytes = ''Mensagem CAN pode ter no m'' @ [CHR 0xC3, CHR 0xA1] @ ''ximo 8 bytes''"

definition msg_extended_id :: string where
  "msg_extended_id = ''ID estendido deve ser <= 0x1FFFFFFF''"

definition msg_standard_id :: string where
  "msg_standard_id = ''ID padr'' @ [CHR 0xC3, CHR 0xA3] @ ''o deve ser <= 0x7FF''"

text \<open>
  \<^verbatim>\<open>CANMessage.__init__(can_id, data, is_extended)\<close>: the length check comes first, then
  the upper bound of the identifier for the addressing mode. No lower bound is checked.
\<close>

definition CANMessage_init :: "int \<Rightarrow> byte list \<Rightarrow> bool \<Rightarrow> real \<Rightarrow> py_error + CANMessage" where
  "CANMessage_init cid d ext now =
     (let message = \<lparr>can_id = cid, data = d, is_extended = ext, timestamp = now,
                      dlc = length d\<rparr>
      in if length d > 8 then Inl (ValueError msg_max_8_bytes)
         else if ext then
           (if cid > 0x1FFFFFFF then Inl (ValueError msg_extended_id) else Inr message)
         else
           (if cid > 0x7FF then Inl (ValueError msg_standard_id) else Inr message))"

section \<open>The bus transport: class CANProtocol\<close>

datatype CANBaudRate = RATE_125K | RATE_250K | RATE_500K | RATE_1M

fun baud_value :: "CANBaudRate \<Rightarrow> int" where
  "baud_value RATE_125K = 125000"
| "baud_value RATE_250K = 250000"
| "baud_value RATE_500K = 500000"
| "baud_value RATE_1M = 1000000"

text \<open>An entry of \<^verbatim>\<open>self.errors\<close>: the dictionary with keys \<^verbatim>\<open>timestamp\<close> and \<^verbatim>\<open>error\<close>.\<close>

record error_entry =
  err_timestamp :: real
  err_text :: string

record CANProtocol =
  bus_id :: string
  baudrate :: CANBaudRate
  node_address :: int
  can_is_active :: bool
  bus_load :: real
  error_count :: int
  tx_buffer :: "CANMessage list"
  rx_buffer :: "CANMessage list"
  messages_sent :: int
  messages_received :: int
  errors :: "error_entry list"
  rx_filters :: "int list"

definition CANProtocol_init :: "string \<Rightarrow> CANBaudRate \<Rightarrow> int \<Rightarrow> CANProtocol" where
  "CANProtocol_init b r a =
     \<lparr>bus_id = b, baudrate = r, node_address = a, can_is_active = False, bus_load = 0,
      error_count = 0, tx_buffer = [], rx_buffer = [], messages_sent = 0,
      messages_received = 0, errors = [], rx_filters = []\<rparr>"

definition can_start :: "CANProtocol \<Rightarrow> CANProtocol" where
  "can_start s = s\<lparr>can_is_active := True, error_count := 0\<rparr>"

definition can_stop :: "CANProtocol \<Rightarrow> CANProtocol" where
  "can_stop s = s\<lparr>can_is_active := False\<rparr>"

text \<open>
  \<^verbatim>\<open>_update_bus_load\<close>: the number of queued frames times 130 bits, over the baud rate, as
  a percentage capped at 100.
\<close>

definition update_bus_load :: "CANProtocol \<Rightarrow> CANProtocol" where
  "update_bus_load s =
     (let messages_per_sec = int (length (tx_buffer s)) + int (length (rx_buffer s));
          bits_per_sec = messages_per_sec * 130
      in s\<lparr>bus_load := min 100 (real_of_int bits_per_sec / real_of_int (baud_value (baudrate s)) * 100)\<rparr>)"

text \<open>The text of an exception, \<^verbatim>\<open>str(e)\<close>, for the exceptions that carry one.\<close>

fun error_str :: "py_error \<Rightarrow> string" where
  "error_str (ValueError m) = m"
| "error_str (RuntimeError m) = m"
| "error_str (KeyError m) = m"
| "error_str ZeroDivisionError = ''division by zero''"
| "error_str OverflowError = ''int too big to convert''"

text \<open>
  \<^verbatim>\<open>send_message\<close>: refused on an inactive bus; otherwise the frame is built inside the
  \<^verbatim>\<open>try\<close>, queued, counted, and the bus load recomputed. A failure of the frame
  constructor is caught: it is counted and logged, and the method returns \<^verbatim>\<open>False\<close>.
\<close>

definition send_message :: "CANProtocol \<Rightarrow> int \<Rightarrow> byte list \<Rightarrow> bool \<Rightarrow> real \<Rightarrow> bool \<times> CANProtocol" where
  "send_message s cid d ext now =
     (if \<not> can_is_active s then (False, s)
      else case CANMessage_init cid d ext now of
        Inr message \<Rightarrow>
          (True, update_bus_load (s\<lparr>tx_buffer := tx_buffer s @ [message],
                                     messages_sent := messages_sent s + 1\<rparr>))
      | Inl e \<Rightarrow>
          (False, s\<lparr>error_count := error_count s + 1,
                    errors := errors s @ [\<lparr>err_timestamp = now, err_text = error_str e\<rparr>]\<rparr>))"

text \<open>\<^verbatim>\<open>receive_message\<close>: pops the oldest received frame; the bus load is not touched.\<close>

definition receive_message :: "CANProtocol \<Rightarrow> CANMessage option \<times> CANProtocol" where
  "receive_message s =
     (if \<not> can_is_active s then (None, s)
      else case rx_buffer s of
        message # rest \<Rightarrow>
          (Some message, s\<lparr>rx_buffer := rest, messages_received := messages_received s + 1\<rparr>)
      | [] \<Rightarrow> (None, s))"

text \<open>
  \<^verbatim>\<open>simulate_incoming_message\<close>: nothing happens on an inactive bus or for a filtered
  identifier; the frame constructor runs outside any \<^verbatim>\<open>try\<close>, so its \<^verbatim>\<open>ValueError\<close>
  reaches the caller (\<open>Inl\<close>, the object as it was). The bus load is not touched.
\<close>

definition simulate_incoming_message :: "CANProtocol \<Rightarrow> int \<Rightarrow> byte list \<Rightarrow> bool \<Rightarrow> real \<Rightarrow> py_error + CANProtocol" where
  "simulate_incoming_message s cid d ext now =
     (if \<not> can_is_active s then Inr s
      else if rx_filters s \<noteq> [] \<and> cid \<notin> set (rx_filters s) then Inr s
      else case CANMessage_init cid d ext now of
        Inl e \<Rightarrow> Inl e
      | Inr message \<Rightarrow> Inr (s\<lparr>rx_buffer := rx_buffer s @ [message]\<rparr>))"

definition add_rx_filter :: "CANProtocol \<Rightarrow> int \<Rightarrow> CANProtocol" where
  "add_rx_filter s cid =
     (if cid \<notin> set (rx_filters s) then s\<lparr>rx_filters := rx_filters s @ [cid]\<rparr> else s)"

definition clear_rx_filters :: "CANProtocol \<Rightarrow> CANProtocol" where
  "clear_rx_filters s = s\<lparr>rx_filters := []\<rparr>"

text \<open>\<^verbatim>\<open>dict.get(key, default)\<close> on a literal dictionary, as an association list.\<close>

definition dict_get :: "('k \<times> 'v) list \<Rightarrow> 'k \<Rightarrow> 'v \<Rightarrow> 'v" where
  "dict_get d k dflt = (case map_of d k of Some v \<Rightarrow> v | None \<Rightarrow> dflt)"

definition sensor_ids :: "(string \<times> int) list" where
  "sensor_ids = [(''temperature'', 0x100), (''humidity'', 0x101), (''pressure'', 0x102),
                 (''soil_moisture'', 0x103), (''npk'', 0x104)]"

definition actuator_ids :: "(string \<times> int) list" where
  "actuator_ids = [(''irrigation'', 0x200), (''fertilizer'', 0x201), (''valve'', 0x202)]"

definition commands :: "(string \<times> int) list" where
  "commands = [(''start'', 0x01), (''stop'', 0x02), (''set_rate'', 0x03), (''status'', 0x04)]"

text \<open>\<^verbatim>\<open>int(x)\<close> of a float truncates towards zero.\<close>

definition py_int :: "real \<Rightarrow> int" where
  "py_int x = (if x < 0 then \<lceil>x\<rceil> else \<lfloor>x\<rfloor>)"

text \<open>
  \<^verbatim>\<open>n.to_bytes(4, byteorder='little', signed=True)\<close>: two's complement, least significant
  byte first; \<^verbatim>\<open>OverflowError\<close> when \<open>n\<close> does not fit 32 signed bits.
\<close>

definition to_bytes_4_little_signed :: "int \<Rightarrow> py_error + byte list" where
  "to_bytes_4_little_signed n =
     (if n < - (2 ^ 31) \<or> 2 ^ 31 \<le> n then Inl OverflowError
      else Inr [word_of_int n, word_of_int (n div 2 ^ 8), word_of_int (n div 2 ^ 16),
                word_of_int (n div 2 ^ 24)])"

text \<open>
  \<^verbatim>\<open>send_sensor_data\<close>: the conversion to bytes happens before \<^verbatim>\<open>send_message\<close> is
  called, so its \<^verbatim>\<open>OverflowError\<close> reaches the caller with the object as it was.
\<close>

definition send_sensor_data :: "CANProtocol \<Rightarrow> string \<Rightarrow> real \<Rightarrow> real \<Rightarrow> py_error + bool \<times> CANProtocol" where
  "send_sensor_data s sensor_type v now =
     (let cid = dict_get sensor_ids sensor_type 0x1FF
      in case to_bytes_4_little_signed (py_int (v * 100)) of
        Inl e \<Rightarrow> Inl e
      | Inr d \<Rightarrow> Inr (send_message s cid (d @ [0, 0, 0, 0]) False now))"

text \<open>
  \<^verbatim>\<open>send_actuator_command\<close>: payload \<^verbatim>\<open>[CMD, VALUE_H, VALUE_L, 0, 0, 0, 0, 0]\<close>, where
  \<^verbatim>\<open>(value >> 8) & 0xFF\<close> and \<^verbatim>\<open>value & 0xFF\<close> are the two low bytes of \<open>value\<close>.
\<close>

definition send_actuator_command :: "CANProtocol \<Rightarrow> string \<Rightarrow> string \<Rightarrow> int \<Rightarrow> real \<Rightarrow> bool \<times> CANProtocol" where
  "send_actuator_command s actuator_type command v now =
     (let cid = dict_get actuator_ids actuator_type 0x2FF;
          cmd_byte = dict_get commands command 0x00
      in send_message s cid
           [word_of_int cmd_byte, word_of_int (v div 2 ^ 8), word_of_int v, 0, 0, 0, 0, 0]
           False now)"

text \<open>
  The operations of the transport that assign an attribute, as one type, and the object
  each leaves behind (\<^verbatim>\<open>get_status\<close>, \<^verbatim>\<open>get_statistics\<close> and \<^verbatim>\<open>__repr__\<close> only read).
\<close>

datatype can_op =
    Start
  | Stop
  | SendMessage int "byte list" bool
  | ReceiveMessage
  | SimulateIncomingMessage int "byte list" bool
  | AddRxFilter int
  | ClearRxFilters
  | UpdateBusLoad
  | SendSensorData string real
  | SendActuatorCommand string string int

fun can_exec :: "CANProtocol \<Rightarrow> real \<Rightarrow> can_op \<Rightarrow> CANProtocol" where
  "can_exec s now Start = can_start s"
| "can_exec s now Stop = can_stop s"
| "can_exec s now (SendMessage cid d ext) = snd (send_message s cid d ext now)"
| "can_exec s now ReceiveMessage = snd (receive_message s)"
| "can_exec s now (SimulateIncomingMessage cid d ext) =
     (case simulate_incoming_message s cid d ext now of Inl e \<Rightarrow> s | Inr s' \<Rightarrow> s')"
| "can_exec s now (AddRxFilter cid) = add_rx_filter s cid"
| "can_exec s now ClearRxFilters = clear_rx_filters s"
| "can_exec s now UpdateBusLoad = update_bus_load s"
| "can_exec s now (SendSensorData k v) =
     (case send_sensor_data s k v now of Inl e \<Rightarrow> s | Inr (ok, s') \<Rightarrow> s')"
| "can_exec s now (SendActuatorCommand k c v) = snd (send_actuator_command s k c v now)"

section \<open>The irrigation controller: class IrrigationSystem\<close>

datatype IrrigationMode = MANUAL | AUTOMATIC | SCHEDULED | OFF

text \<open>
  A method of the controller may raise after it has assigned attributes, so its result is
  what it returned or raised, together with the object and the supply of random draws as
  the call left them.
\<close>

datatype 'a outcome = Returned 'a | Raised py_error

type_synonym draws = "nat \<Rightarrow> real"

text \<open>\<^verbatim>\<open>random.uniform(-0.2, 0.2)\<close>: the next draw, and the supply without it.\<close>

definition uniform :: "draws \<Rightarrow> real \<times> draws" where
  "uniform g = (g 0, \<lambda>n. g (Suc n))"

text \<open>
  \<^verbatim>\<open>zones_status\<close> is a dictionary from zone number to \<^verbatim>\<open>bool\<close>, kept as an association
  list in insertion order; \<open>dict_set\<close> is \<^verbatim>\<open>d[k] = v\<close>.
\<close>

fun dict_set :: "('k \<times> 'v) list \<Rightarrow> 'k \<Rightarrow> 'v \<Rightarrow> ('k \<times> 'v) list" where
  "dict_set [] k v = [(k, v)]"
| "dict_set ((a, b) # ps) k v = (if a = k then (k, v) # ps else (a, b) # dict_set ps k v)"

definition dict_has :: "('k \<times> 'v) list \<Rightarrow> 'k \<Rightarrow> bool" where
  "dict_has d k = (k \<in> set (map fst d))"

record IrrigationSystem =
  irr_system_id :: string
  num_zones :: int
  max_flow_rate :: real
  irr_is_active :: bool
  irr_mode :: IrrigationMode
  current_flow_rate :: real
  current_pressure :: real
  total_volume :: real
  zones_status :: "(int \<times> bool) list"
  operation_time :: real
  last_irrigation :: "real option"
  next_scheduled :: "real option"
  target_soil_moisture :: real
  schedule_times :: "string list"

definition IrrigationSystem_init :: "string \<Rightarrow> int \<Rightarrow> real \<Rightarrow> IrrigationSystem" where
  "IrrigationSystem_init sid zones mx =
     \<lparr>irr_system_id = sid, num_zones = zones, max_flow_rate = mx, irr_is_active = False,
      irr_mode = OFF, current_flow_rate = 0, current_pressure = 0, total_volume = 0,
      zones_status = map (\<lambda>i. (i, False)) [1..zones], operation_time = 0,
      last_irrigation = None, next_scheduled = None, target_soil_moisture = 50,
      schedule_times = []\<rparr>"

definition irr_start :: "IrrigationSystem \<Rightarrow> IrrigationMode \<Rightarrow> IrrigationSystem" where
  "irr_start s m = s\<lparr>irr_is_active := True, irr_mode := m\<rparr>"

definition irr_stop :: "IrrigationSystem \<Rightarrow> IrrigationSystem" where
  "irr_stop s =
     s\<lparr>irr_is_active := False, irr_mode := OFF, current_flow_rate := 0, current_pressure := 0,
       zones_status := map (\<lambda>(zone, status). (zone, False)) (zones_status s)\<rparr>"

text \<open>
  \<^verbatim>\<open>_update_flow_and_pressure\<close>: with no zone open both values are zero; otherwise the flow
  is the share of the open zones, capped at the maximum, and the pressure is 2.5 bar plus a
  random draw. The division \<^verbatim>\<open>max_flow_rate / num_zones\<close> raises when \<^verbatim>\<open>num_zones\<close> is 0,
  before anything is assigned.
\<close>

definition update_flow_and_pressure :: "IrrigationSystem \<Rightarrow> draws \<Rightarrow> unit outcome \<times> IrrigationSystem \<times> draws" where
  "update_flow_and_pressure s g =
     (let active_zones = int (length (filter snd (zones_status s)))
      in if active_zones = 0 then
           (Returned (), s\<lparr>current_flow_rate := 0, current_pressure := 0\<rparr>, g)
         else if num_zones s = 0 then (Raised ZeroDivisionError, s, g)
         else
           (let s1 = s\<lparr>current_flow_rate :=
                        min (max_flow_rate s)
                          (real_of_int active_zones * (max_flow_rate s / real_of_int (num_zones s)))\<rparr>;
                base_pressure = 2.5;
                (jitter, g') = uniform g
            in (Returned (), s1\<lparr>current_pressure := base_pressure + jitter\<rparr>, g')))"

text \<open>\<^verbatim>\<open>open_zone\<close>: guarded by \<^verbatim>\<open>is_active\<close>, then by the zone being a key.\<close>

definition open_zone :: "IrrigationSystem \<Rightarrow> draws \<Rightarrow> int \<Rightarrow> bool outcome \<times> IrrigationSystem \<times> draws" where
  "open_zone s g zone_number =
     (if \<not> irr_is_active s then (Returned False, s, g)
      else if \<not> dict_has (zones_status s) zone_number then (Returned False, s, g)
      else
        (case update_flow_and_pressure
                (s\<lparr>zones_status := dict_set (zones_status s) zone_number True\<rparr>) g of
           (Raised e, s', g') \<Rightarrow> (Raised e, s', g')
         | (Returned u, s', g') \<Rightarrow> (Returned True, s', g')))"

text \<open>\<^verbatim>\<open>close_zone\<close>: guarded by the zone being a key only; \<^verbatim>\<open>is_active\<close> is not read.\<close>

definition close_zone :: "IrrigationSystem \<Rightarrow> draws \<Rightarrow> int \<Rightarrow> bool outcome \<times> IrrigationSystem \<times> draws" where
  "close_zone s g zone_number =
     (if \<not> dict_has (zones_status s) zone_number then (Returned False, s, g)
      else
        (case update_flow_and_pressure
                (s\<lparr>zones_status := dict_set (zones_status s) zone_number False\<rparr>) g of
           (Raised e, s', g') \<Rightarrow> (Raised e, s', g')
         | (Returned u, s', g') \<Rightarrow> (Returned True, s', g')))"

definition set_flow_rate :: "IrrigationSystem \<Rightarrow> real \<Rightarrow> bool \<times> IrrigationSystem" where
  "set_flow_rate s flow_rate =
     (if \<not> irr_is_active s then (False, s)
      else if flow_rate < 0 \<or> flow_rate > max_flow_rate s then (False, s)
      else (True, s\<lparr>current_flow_rate := flow_rate\<rparr>))"

text \<open>
  \<^verbatim>\<open>irrigate_zone\<close>: guarded by \<^verbatim>\<open>is_active\<close>; the results of \<^verbatim>\<open>open_zone\<close> and
  \<^verbatim>\<open>close_zone\<close> are discarded, the time and the volume are accumulated in between, and the
  method returns \<^verbatim>\<open>None\<close> on every path.
\<close>

definition irrigate_zone :: "IrrigationSystem \<Rightarrow> draws \<Rightarrow> int \<Rightarrow> real \<Rightarrow> real \<Rightarrow> unit outcome \<times> IrrigationSystem \<times> draws" where
  "irrigate_zone s g zone_number duration_minutes now =
     (if \<not> irr_is_active s then (Returned (), s, g)
      else
        (case open_zone s g zone_number of
           (Raised e, s1, g1) \<Rightarrow> (Raised e, s1, g1)
         | (Returned r_open, s1, g1) \<Rightarrow>
             (let s2 = s1\<lparr>operation_time := operation_time s1 + duration_minutes\<rparr>;
                  volume = current_flow_rate s2 * duration_minutes;
                  s3 = s2\<lparr>total_volume := total_volume s2 + volume\<rparr>
              in case close_zone s3 g1 zone_number of
                   (Raised e, s4, g2) \<Rightarrow> (Raised e, s4, g2)
                 | (Returned r_close, s4, g2) \<Rightarrow>
                     (Returned (), s4\<lparr>last_irrigation := Some now\<rparr>, g2))))"

text \<open>The loop \<^verbatim>\<open>for zone in range(1, self.num_zones + 1): self.open_zone(zone)\<close>.\<close>

fun open_zones :: "IrrigationSystem \<Rightarrow> draws \<Rightarrow> int list \<Rightarrow> unit outcome \<times> IrrigationSystem \<times> draws" where
  "open_zones s g [] = (Returned (), s, g)"
| "open_zones s g (zone # rest) =
     (case open_zone s g zone of
        (Raised e, s', g') \<Rightarrow> (Raised e, s', g')
      | (Returned r_open, s', g') \<Rightarrow> open_zones s' g' rest)"

text \<open>
  \<^verbatim>\<open>auto_irrigate\<close>: the local \<^verbatim>\<open>duration\<close> is computed and printed; the loop then opens
  every zone. No statistic is assigned.
\<close>

definition auto_irrigate_duration :: "IrrigationSystem \<Rightarrow> real \<Rightarrow> real" where
  "auto_irrigate_duration s current_soil_moisture =
     (let deficit = target_soil_moisture s - current_soil_moisture in min 30 (deficit * 2))"

definition auto_irrigate :: "IrrigationSystem \<Rightarrow> draws \<Rightarrow> real \<Rightarrow> bool outcome \<times> IrrigationSystem \<times> draws" where
  "auto_irrigate s g current_soil_moisture =
     (if \<not> irr_is_active s \<or> irr_mode s \<noteq> AUTOMATIC then (Returned False, s, g)
      else if current_soil_moisture < target_soil_moisture s then
        (let duration = auto_irrigate_duration s current_soil_moisture
         in case open_zones s g [1..num_zones s] of
              (Raised e, s', g') \<Rightarrow> (Raised e, s', g')
            | (Returned u, s', g') \<Rightarrow> (Returned True, s', g'))
      else (Returned False, s, g))"

section \<open>The fertilization controller: class FertilizerSystem\<close>

text \<open>The accented letters of the Portuguese texts, as UTF-8.\<close>

definition a_acute :: string where "a_acute = [CHR 0xC3, CHR 0xA1]"
definition a_tilde :: string where "a_tilde = [CHR 0xC3, CHR 0xA3]"
definition c_cedilla :: string where "c_cedilla = [CHR 0xC3, CHR 0xA7]"
definition e_acute :: string where "e_acute = [CHR 0xC3, CHR 0xA9]"
definition e_circumflex :: string where "e_circumflex = [CHR 0xC3, CHR 0xAA]"
definition i_acute :: string where "i_acute = [CHR 0xC3, CHR 0xAD]"
definition o_acute :: string where "o_acute = [CHR 0xC3, CHR 0xB3]"
definition capital_e_acute :: string where "capital_e_acute = [CHR 0xC3, CHR 0x89]"

datatype FertilizerType = NPK_20_10_10 | NPK_10_20_20 | NPK_15_15_15 | NPK_04_14_08 | UREA

fun fertilizer_value :: "FertilizerType \<Rightarrow> string" where
  "fertilizer_value NPK_20_10_10 = ''NPK 20-10-10''"
| "fertilizer_value NPK_10_20_20 = ''NPK 10-20-20''"
| "fertilizer_value NPK_15_15_15 = ''NPK 15-15-15''"
| "fertilizer_value NPK_04_14_08 = ''NPK 04-14-08''"
| "fertilizer_value UREA = ''Ur'' @ e_acute @ ''ia 45-00-00''"

datatype ApplicationMode = MANUAL | AUTOMATIC | VARIABLE_RATE | OFF

text \<open>A dictionary with string keys and float values (\<^verbatim>\<open>current_npk\<close>, \<^verbatim>\<open>target_npk\<close>).\<close>

type_synonym npk_dict = "(string \<times> real) list"

record FertilizerSystem =
  fert_system_id :: string
  tank_capacity :: real
  max_rate :: real
  fert_is_active :: bool
  fert_mode :: ApplicationMode
  current_fertilizer :: "FertilizerType option"
  tank_level :: real
  application_rate :: real
  total_applied :: real
  area_covered :: real
  last_application :: "real option"
  applications_count :: int
  target_npk :: npk_dict

definition FertilizerSystem_init :: "string \<Rightarrow> real \<Rightarrow> real \<Rightarrow> FertilizerSystem" where
  "FertilizerSystem_init sid capacity mx =
     \<lparr>fert_system_id = sid, tank_capacity = capacity, max_rate = mx, fert_is_active = False,
      fert_mode = OFF, current_fertilizer = None, tank_level = capacity, application_rate = 0,
      total_applied = 0, area_covered = 0, last_application = None, applications_count = 0,
      target_npk = [(''N'', 30), (''P'', 15), (''K'', 40)]\<rparr>"

definition fert_start :: "FertilizerSystem \<Rightarrow> ApplicationMode \<Rightarrow> FertilizerSystem" where
  "fert_start s m = s\<lparr>fert_is_active := True, fert_mode := m\<rparr>"

definition fert_stop :: "FertilizerSystem \<Rightarrow> FertilizerSystem" where
  "fert_stop s = s\<lparr>fert_is_active := False, fert_mode := OFF, application_rate := 0\<rparr>"

definition load_fertilizer :: "FertilizerSystem \<Rightarrow> FertilizerType \<Rightarrow> real \<Rightarrow> bool \<times> FertilizerSystem" where
  "load_fertilizer s fertilizer_type amount =
     (if fert_is_active s then (False, s)
      else if amount > tank_capacity s then (False, s)
      else (True, s\<lparr>current_fertilizer := Some fertilizer_type, tank_level := amount\<rparr>))"

definition set_application_rate :: "FertilizerSystem \<Rightarrow> real \<Rightarrow> bool \<times> FertilizerSystem" where
  "set_application_rate s rate =
     (if \<not> fert_is_active s then (False, s)
      else if rate < 0 \<or> rate > max_rate s then (False, s)
      else if current_fertilizer s = None then (False, s)
      else (True, s\<lparr>application_rate := rate\<rparr>))"

text \<open>
  \<^verbatim>\<open>round(x, ndigits)\<close>: to the nearest multiple of \<open>10 ^ (- ndigits)\<close>, a tie going to the
  even one.
\<close>

definition round_half_even :: "real \<Rightarrow> int" where
  "round_half_even x =
     (let f = \<lfloor>x\<rfloor>; d = x - real_of_int f
      in if d < 1 / 2 then f else if d > 1 / 2 then f + 1 else if even f then f else f + 1)"

definition py_round :: "real \<Rightarrow> nat \<Rightarrow> real" where
  "py_round x ndigits = real_of_int (round_half_even (x * 10 ^ ndigits)) / 10 ^ ndigits"

text \<open>\<^verbatim>\<open>_get_npk_composition\<close>: the percentages of N, P and K of each product.\<close>

record npk =
  npk_N :: real
  npk_P :: real
  npk_K :: real

fun get_npk_composition :: "FertilizerType \<Rightarrow> npk" where
  "get_npk_composition NPK_20_10_10 = \<lparr>npk_N = 20, npk_P = 10, npk_K = 10\<rparr>"
| "get_npk_composition NPK_10_20_20 = \<lparr>npk_N = 10, npk_P = 20, npk_K = 20\<rparr>"
| "get_npk_composition NPK_15_15_15 = \<lparr>npk_N = 15, npk_P = 15, npk_K = 15\<rparr>"
| "get_npk_composition NPK_04_14_08 = \<lparr>npk_N = 4, npk_P = 14, npk_K = 8\<rparr>"
| "get_npk_composition UREA = \<lparr>npk_N = 45, npk_P = 0, npk_K = 0\<rparr>"

text \<open>The dictionary returned by \<^verbatim>\<open>apply\<close>.\<close>

record application =
  area_hectares :: real
  amount_applied_kg :: real
  fertilizer_type :: string
  app_application_rate :: real
  tank_remaining_kg :: real
  npk_applied :: npk

definition msg_not_active :: "string \<Rightarrow> string" where
  "msg_not_active sid =
     ''Sistema '' @ sid @ '' n'' @ a_tilde @ ''o est'' @ a_acute @ '' ativo''"

definition msg_nothing_loaded :: string where
  "msg_nothing_loaded = ''Nenhum fertilizante carregado''"

definition msg_rate_not_set :: string where
  "msg_rate_not_set =
     ''Taxa de aplica'' @ c_cedilla @ a_tilde @ ''o n'' @ a_tilde @ ''o definida''"

text \<open>
  \<^verbatim>\<open>apply(area)\<close>: three guards that raise \<^verbatim>\<open>RuntimeError\<close> before anything is assigned;
  then the required amount, clamped to the tank level together with the area; then the
  tank, the totals, the count and the time stamp; last the report, rounded to two decimals.
\<close>

definition fert_apply :: "FertilizerSystem \<Rightarrow> real \<Rightarrow> real \<Rightarrow> py_error + application \<times> FertilizerSystem" where
  "fert_apply s area now =
     (if \<not> fert_is_active s then Inl (RuntimeError (msg_not_active (fert_system_id s)))
      else case current_fertilizer s of
        None \<Rightarrow> Inl (RuntimeError msg_nothing_loaded)
      | Some product \<Rightarrow>
          if application_rate s = 0 then Inl (RuntimeError msg_rate_not_set)
          else
            (let required_amount0 = application_rate s * area;
                 (required_amount, area') =
                   (if required_amount0 > tank_level s
                    then (tank_level s, tank_level s / application_rate s)
                    else (required_amount0, area));
                 s' = s\<lparr>tank_level := tank_level s - required_amount,
                        total_applied := total_applied s + required_amount,
                        area_covered := area_covered s + area',
                        applications_count := applications_count s + 1,
                        last_application := Some now\<rparr>;
                 npk_composition = get_npk_composition product;
                 applied_npk =
                   \<lparr>npk_N = required_amount * npk_N npk_composition / 100,
                    npk_P = required_amount * npk_P npk_composition / 100,
                    npk_K = required_amount * npk_K npk_composition / 100\<rparr>;
                 result =
                   \<lparr>area_hectares = py_round area' 2,
                    amount_applied_kg = py_round required_amount 2,
                    fertilizer_type = fertilizer_value product,
                    app_application_rate = application_rate s',
                    tank_remaining_kg = py_round (tank_level s') 2,
                    npk_applied =
                      \<lparr>npk_N = py_round (npk_N applied_npk) 2,
                       npk_P = py_round (npk_P applied_npk) 2,
                       npk_K = py_round (npk_K applied_npk) 2\<rparr>\<rparr>
             in Inr (result, s')))"

subsection \<open>Float arithmetic as a parameter\<close>

text \<open>
  \<^verbatim>\<open>recommend_fertilizer\<close> returns discrete results, a product and a rate in tenths, that
  depend on how each float operation rounds: the difference decides \<^verbatim>\<open>> 10\<close>, the sum
  decides \<^verbatim>\<open>> 15\<close>, and \<^verbatim>\<open>round(x, 1)\<close> sees the rounded product. For this method the float
  arithmetic of the runtime is therefore a parameter: a type \<open>'f\<close> of floats with the
  operations the method uses.
  \<^item> \<open>f_of_real\<close>: the float with a given value (an attribute, or a literal such as 10);
  \<^item> \<open>f_sub\<close>, \<open>f_mul\<close>: \<^verbatim>\<open>x - y\<close> and \<^verbatim>\<open>x * y\<close>;
  \<^item> \<open>f_sum\<close>: the builtin \<^verbatim>\<open>sum\<close> of a sequence of floats;
  \<^item> \<open>f_div3\<close>: \<^verbatim>\<open>x / 3\<close>, the only division of the method;
  \<^item> \<open>f_gt\<close>, \<open>f_lt\<close>: \<^verbatim>\<open>x > y\<close> and \<^verbatim>\<open>x < y\<close>;
  \<^item> \<open>f_round1\<close>: \<^verbatim>\<open>round(x, 1)\<close>.
\<close>

record 'f float_arith =
  f_of_real :: "real \<Rightarrow> 'f"
  f_sub :: "'f \<Rightarrow> 'f \<Rightarrow> 'f"
  f_sum :: "'f list \<Rightarrow> 'f"
  f_div3 :: "'f \<Rightarrow> 'f"
  f_mul :: "'f \<Rightarrow> 'f \<Rightarrow> 'f"
  f_gt :: "'f \<Rightarrow> 'f \<Rightarrow> bool"
  f_lt :: "'f \<Rightarrow> 'f \<Rightarrow> bool"
  f_round1 :: "'f \<Rightarrow> 'f"

text \<open>
  The builtins \<^verbatim>\<open>max(0, x)\<close> and \<^verbatim>\<open>min(a, b)\<close>: the first argument is kept unless the
  second is strictly greater, respectively strictly smaller.
\<close>

definition py_max_0 :: "'f float_arith \<Rightarrow> 'f \<Rightarrow> 'f" where
  "py_max_0 fp x = (if f_gt fp x (f_of_real fp 0) then x else f_of_real fp 0)"

definition py_min :: "'f float_arith \<Rightarrow> 'f \<Rightarrow> 'f \<Rightarrow> 'f" where
  "py_min fp a b = (if f_lt fp b a then b else a)"

subsection \<open>The recommendation\<close>

text \<open>The dictionary returned by \<^verbatim>\<open>recommend_fertilizer\<close>.\<close>

record 'f recommendation =
  rec_current_npk :: "(string \<times> 'f) list"
  rec_target_npk :: npk_dict
  deficits :: "(string \<times> 'f) list"
  recommended_fertilizer :: string
  recommended_rate_kg_ha :: 'f
  reason :: string

text \<open>\<^verbatim>\<open>d[k]\<close>, which raises \<^verbatim>\<open>KeyError\<close> for a missing key.\<close>

definition dict_index :: "npk_dict \<Rightarrow> string \<Rightarrow> py_error + real" where
  "dict_index d k = (case map_of d k of None \<Rightarrow> Inl (KeyError k) | Some v \<Rightarrow> Inr v)"

text \<open>One entry of \<^verbatim>\<open>deficits\<close>: \<^verbatim>\<open>max(0, self.target_npk[k] - current_npk.get(k, 0))\<close>.\<close>

definition deficit_of :: "'f float_arith \<Rightarrow> npk_dict \<Rightarrow> (string \<times> 'f) list \<Rightarrow> string \<Rightarrow> py_error + 'f" where
  "deficit_of fp target current k =
     (case dict_index target k of
        Inl e \<Rightarrow> Inl e
      | Inr t \<Rightarrow>
          Inr (py_max_0 fp (f_sub fp (f_of_real fp t) (dict_get current k (f_of_real fp 0)))))"

text \<open>The \<^verbatim>\<open>if\<close>/\<^verbatim>\<open>elif\<close> chain that picks the product and the reason.\<close>

definition choose_fertilizer :: "'f float_arith \<Rightarrow> 'f \<Rightarrow> 'f \<Rightarrow> 'f \<Rightarrow> FertilizerType option \<times> string" where
  "choose_fertilizer fp dN dP dK =
     (if f_gt fp dN (f_of_real fp 10) then
        (Some NPK_20_10_10, ''Alto d'' @ e_acute @ ''ficit de Nitrog'' @ e_circumflex @ ''nio'')
      else if f_gt fp dP (f_of_real fp 10) then
        (Some NPK_04_14_08, ''Alto d'' @ e_acute @ ''ficit de F'' @ o_acute @ ''sforo'')
      else if f_gt fp dK (f_of_real fp 10) then
        (Some NPK_10_20_20, ''Alto d'' @ e_acute @ ''ficit de Pot'' @ a_acute @ ''ssio'')
      else if f_gt fp (f_sum fp [dN, dP, dK]) (f_of_real fp 15) then
        (Some NPK_15_15_15, ''D'' @ e_acute @ ''ficit balanceado'')
      else (None, ''N'' @ i_acute @ ''veis adequados''))"

text \<open>
  \<^verbatim>\<open>recommend_fertilizer(current_npk)\<close>: the deficits in the order N, P, K, the product, the
  rate (the mean deficit times three, capped at \<^verbatim>\<open>max_rate\<close>), and the report, whose rate is
  \<^verbatim>\<open>round(recommended_rate, 1)\<close>. Without a product the rate is the integer 0, which
  \<^verbatim>\<open>round\<close> returns as it is. No attribute is assigned, so the result is the report alone.
\<close>

definition recommend_fertilizer :: "'f float_arith \<Rightarrow> FertilizerSystem \<Rightarrow> (string \<times> 'f) list \<Rightarrow> py_error + 'f recommendation" where
  "recommend_fertilizer fp s current_npk =
     (case deficit_of fp (target_npk s) current_npk ''N'' of
        Inl e \<Rightarrow> Inl e
      | Inr dN \<Rightarrow>
     (case deficit_of fp (target_npk s) current_npk ''P'' of
        Inl e \<Rightarrow> Inl e
      | Inr dP \<Rightarrow>
     (case deficit_of fp (target_npk s) current_npk ''K'' of
        Inl e \<Rightarrow> Inl e
      | Inr dK \<Rightarrow>
          (let (recommended, why) = choose_fertilizer fp dN dP dK
           in Inr \<lparr>rec_current_npk = current_npk,
                   rec_target_npk = target_npk s,
                   deficits = [(''N'', dN), (''P'', dP), (''K'', dK)],
                   recommended_fertilizer =
                     (case recommended of
                        Some product \<Rightarrow> fertilizer_value product
                      | None \<Rightarrow> ''Nenhum''),
                   recommended_rate_kg_ha =
                     (case recommended of
                        Some product \<Rightarrow>
                          (let avg_deficit = f_div3 fp (f_sum fp [dN, dP, dK]);
                               recommended_rate =
                                 py_min fp (f_of_real fp (max_rate s))
                                   (f_mul fp avg_deficit (f_of_real fp 3))
                           in f_round1 fp recommended_rate)
                      | None \<Rightarrow> f_of_real fp 0),
                   reason = why\<rparr>))))"

subsection \<open>The binary64 arithmetic\<close>

text \<open>
  Modelled from IEEE 754 and the documented behaviour of the builtins, not from the
  repository: the double-precision floats of the runtime, used below to evaluate
  \<^verbatim>\<open>recommend_fertilizer\<close> at concrete soils. A float is a finite value, an infinity or
  NaN; the two zeros are one value (they compare equal).
\<close>

datatype double = Finite real | PosInf | NegInf | NaN

text \<open>\<^verbatim>\<open>n.bit_length()\<close>: the number of binary digits of a natural number.\<close>

fun bit_length :: "nat \<Rightarrow> nat" where
  "bit_length n = (if n = 0 then 0 else Suc (bit_length (n div 2)))"

declare bit_length.simps [simp del]

definition pow2 :: "int \<Rightarrow> real" where
  "pow2 e = (if 0 \<le> e then 2 ^ nat e else 1 / 2 ^ nat (- e))"

text \<open>
  The binary exponent of a positive real \<open>x\<close>: the \<open>e\<close> with
  \<open>pow2 e \<le> x < pow2 (e + 1)\<close> (lemma \<open>exponent2_bounds\<close>).
\<close>

definition exponent2 :: "real \<Rightarrow> int" where
  "exponent2 x =
     (if 1 \<le> x then int (bit_length (nat \<lfloor>x\<rfloor>)) - 1
      else - int (bit_length (nat (\<lceil>1 / x\<rceil> - 1))))"

text \<open>
  Rounding to binary64, to nearest with ties to even: the spacing of the floats at \<open>x\<close> is
  2 to the power of the exponent of \<open>x\<close> minus 52, and 2 to the power of -1074 in the
  subnormal range; a result of magnitude 2 to the power of 1024 or more is an infinity.
\<close>

definition fl :: "real \<Rightarrow> real" where
  "fl x =
     (if x = 0 then 0
      else (let u = pow2 (max (exponent2 \<bar>x\<bar> - 52) (- 1074))
            in real_of_int (round_half_even (x / u)) * u))"

definition rnd :: "real \<Rightarrow> double" where
  "rnd x =
     (let r = fl x
      in if 2 ^ 1024 \<le> r then PosInf else if r \<le> - (2 ^ 1024) then NegInf else Finite r)"

fun d_neg :: "double \<Rightarrow> double" where
  "d_neg (Finite a) = Finite (- a)"
| "d_neg PosInf = NegInf"
| "d_neg NegInf = PosInf"
| "d_neg NaN = NaN"

fun d_add :: "double \<Rightarrow> double \<Rightarrow> double" where
  "d_add NaN y = NaN"
| "d_add x NaN = NaN"
| "d_add (Finite a) (Finite b) = rnd (a + b)"
| "d_add PosInf NegInf = NaN"
| "d_add NegInf PosInf = NaN"
| "d_add PosInf y = PosInf"
| "d_add NegInf y = NegInf"
| "d_add (Finite a) y = y"

definition d_sub :: "double \<Rightarrow> double \<Rightarrow> double" where
  "d_sub x y = d_add x (d_neg y)"

fun d_mul :: "double \<Rightarrow> double \<Rightarrow> double" where
  "d_mul NaN y = NaN"
| "d_mul x NaN = NaN"
| "d_mul (Finite a) (Finite b) = rnd (a * b)"
| "d_mul (Finite a) PosInf = (if a = 0 then NaN else if 0 < a then PosInf else NegInf)"
| "d_mul (Finite a) NegInf = (if a = 0 then NaN else if 0 < a then NegInf else PosInf)"
| "d_mul PosInf (Finite b) = (if b = 0 then NaN else if 0 < b then PosInf else NegInf)"
| "d_mul NegInf (Finite b) = (if b = 0 then NaN else if 0 < b then NegInf else PosInf)"
| "d_mul PosInf PosInf = PosInf"
| "d_mul PosInf NegInf = NegInf"
| "d_mul NegInf PosInf = NegInf"
| "d_mul NegInf NegInf = PosInf"

fun d_div3 :: "double \<Rightarrow> double" where
  "d_div3 (Finite a) = rnd (a / 3)"
| "d_div3 x = x"

fun d_gt :: "double \<Rightarrow> double \<Rightarrow> bool" where
  "d_gt NaN y = False"
| "d_gt x NaN = False"
| "d_gt (Finite a) (Finite b) = (b < a)"
| "d_gt PosInf PosInf = False"
| "d_gt PosInf y = True"
| "d_gt x PosInf = False"
| "d_gt NegInf y = False"
| "d_gt (Finite a) NegInf = True"

text \<open>
  \<^verbatim>\<open>sum\<close> starts from the integer 0 and adds from left to right. Newer runtimes carry a
  compensation term through the additions; the two agree whenever every addition is exact,
  as it is in the soils evaluated below.
\<close>

definition d_sum :: "double list \<Rightarrow> double" where
  "d_sum xs = foldl d_add (Finite 0) xs"

text \<open>
  \<^verbatim>\<open>round(x, 1)\<close> of a float: the exact value of \<open>x\<close> rounded to one decimal, a tie going
  to the even tenth, then the float nearest to that decimal; an infinity or NaN is returned
  as it is.
\<close>

fun d_round1 :: "double \<Rightarrow> double" where
  "d_round1 (Finite a) = rnd (real_of_int (round_half_even (a * 10)) / 10)"
| "d_round1 x = x"

definition binary64 :: "double float_arith" where
  "binary64 =
     \<lparr>f_of_real = rnd, f_sub = d_sub, f_sum = d_sum, f_div3 = d_div3, f_mul = d_mul,
      f_gt = d_gt, f_lt = (\<lambda>x y. d_gt y x), f_round1 = d_round1\<rparr>"

section \<open>Objects used in the examples\<close>

text \<open>A bus at 250 kbit/s after \<^verbatim>\<open>start()\<close>, as in the module's own example.\<close>

definition bus_started :: CANProtocol where
  "bus_started = can_start (CANProtocol_init ''CAN0'' RATE_250K 0x17)"

text \<open>The same bus after a send that the frame constructor refused (identifier 0x800).\<close>

definition bus_after_failed_send :: CANProtocol where
  "bus_after_failed_send = snd (send_message bus_started 0x800 [] False 0)"

text \<open>An 8-byte payload.\<close>

definition frame_payload :: "byte list" where
  "frame_payload = [1, 2, 3, 4, 5, 6, 7, 8]"

text \<open>
  The started bus after \<^verbatim>\<open>simulate_incoming_message(0x300, payload)\<close>, then after
  \<^verbatim>\<open>send_message(0x100, payload)\<close>, then after \<^verbatim>\<open>receive_message()\<close>.
\<close>

definition bus_after_inject :: CANProtocol where
  "bus_after_inject = can_exec bus_started 0 (SimulateIncomingMessage 0x300 frame_payload False)"

definition bus_after_inject_send :: CANProtocol where
  "bus_after_inject_send = can_exec bus_after_inject 0 (SendMessage 0x100 frame_payload False)"

definition bus_after_inject_send_receive :: CANProtocol where
  "bus_after_inject_send_receive = can_exec bus_after_inject_send 0 ReceiveMessage"

text \<open>A supply of random draws that are all 0.\<close>

definition no_jitter :: draws where
  "no_jitter = (\<lambda>n. 0)"

text \<open>
  The irrigation controller of the module's own example: four zones, 100 L/min; as
  constructed, then started in manual mode with zone 1 opened, and started in automatic
  mode with the target moisture set to 60.
\<close>

definition irr_fresh :: IrrigationSystem where
  "irr_fresh = IrrigationSystem_init ''IRR_001'' 4 100"

definition irr_zone_1_open :: IrrigationSystem where
  "irr_zone_1_open = fst (snd (open_zone (irr_start irr_fresh IrrigationMode.MANUAL) no_jitter 1))"

definition irr_auto :: IrrigationSystem where
  "irr_auto = (irr_start irr_fresh IrrigationMode.AUTOMATIC)\<lparr>target_soil_moisture := 60\<rparr>"

text \<open>
  The fertilization controller of the module's own example: a 500 kg tank, at most
  200 kg/ha; as constructed, and after loading 300 kg, starting and setting the rate to 80.
\<close>

definition fert_fresh :: FertilizerSystem where
  "fert_fresh = FertilizerSystem_init ''FERT_001'' 500 200"

definition fert_loaded_rate_80 :: FertilizerSystem where
  "fert_loaded_rate_80 =
     snd (set_application_rate
            (fert_start (snd (load_fertilizer fert_fresh NPK_15_15_15 300)) MANUAL) 80)"

text \<open>
  Soil analyses as binary64 floats: the one of the module's example; one on target but for
  N at 19.625; one on target but for N at the float nearest 15.15; and one with N and K on
  target and P at the float just below 5.
\<close>

definition soil_sample :: "(string \<times> double) list" where
  "soil_sample = [(''N'', Finite 15), (''P'', Finite 8), (''K'', Finite 25)]"

definition soil_n_low :: "(string \<times> double) list" where
  "soil_n_low = [(''N'', Finite 19.625), (''P'', Finite 15), (''K'', Finite 40)]"

definition soil_n_15_15 :: "(string \<times> double) list" where
  "soil_n_15_15 =
     [(''N'', Finite (8528691794332877 / 562949953421312)), (''P'', Finite 15),
      (''K'', Finite 40)]"

definition soil_p_below_5 :: "(string \<times> double) list" where
  "soil_p_below_5 =
     [(''N'', Finite 30), (''P'', Finite (5629499534213119 / 1125899906842624)),
      (''K'', Finite 40)]"

section \<open>Frame construction\<close>

text \<open>
  C8. The constructor accepts the identifier 0x7FF in standard mode and 0x1FFFFFFF in
  extended mode; with a payload of at most 8 bytes it refuses 0x800 (standard) and
  0x20000000 (extended) with the \<^verbatim>\<open>ValueError\<close> of the identifier bound (the spec's
  IdentifierOutOfRange); it refuses every 9-byte payload, whatever the identifier and the
  mode, with the \<^verbatim>\<open>ValueError\<close> of the payload length (the spec's InvalidPayloadLength);
  and every 8-byte payload with an identifier within the bound of its mode gives a frame
  whose data-length code is 8.
\<close>

theorem C8_frame_construction_bounds:
  assumes "length d \<le> 8" and "length d9 = 9" and "length d8 = 8"
    and "cid \<le> (if ext then 0x1FFFFFFF else 0x7FF)"
  shows "CANMessage_init 0x7FF d False now =
           Inr \<lparr>can_id = 0x7FF, data = d, is_extended = False, timestamp = now, dlc = length d\<rparr>
       \<and> CANMessage_init 0x1FFFFFFF d True now =
           Inr \<lparr>can_id = 0x1FFFFFFF, data = d, is_extended = True, timestamp = now, dlc = length d\<rparr>
       \<and> CANMessage_init 0x800 d False now = Inl (ValueError msg_standard_id)
       \<and> CANMessage_init 0x20000000 d True now = Inl (ValueError msg_extended_id)
       \<and> CANMessage_init cid' d9 ext' now = Inl (ValueError msg_max_8_bytes)
       \<and> CANMessage_init cid d8 ext now =
           Inr \<lparr>can_id = cid, data = d8, is_extended = ext, timestamp = now, dlc = 8\<rparr>"
  using assms by (auto simp: CANMessage_init_def Let_def split: if_splits)

text \<open>C8 at the payloads \<open>[1, 2, 3]\<close>, \<open>[1, \<dots>, 9]\<close> and \<open>[1, \<dots>, 8]\<close>.\<close>

theorem C8_frame_construction_bounds_witness:
  "CANMessage_init 0x7FF [1, 2, 3] False 5 =
     Inr \<lparr>can_id = 0x7FF, data = [1, 2, 3], is_extended = False, timestamp = 5, dlc = 3\<rparr>
   \<and> CANMessage_init 0x1FFFFFFF [1, 2, 3] True 5 =
     Inr \<lparr>can_id = 0x1FFFFFFF, data = [1, 2, 3], is_extended = True, timestamp = 5, dlc = 3\<rparr>
   \<and> CANMessage_init 0x800 [1, 2, 3] False 5 = Inl (ValueError msg_standard_id)
   \<and> CANMessage_init 0x20000000 [1, 2, 3] True 5 = Inl (ValueError msg_extended_id)
   \<and> CANMessage_init 0x100 [1, 2, 3, 4, 5, 6, 7, 8, 9] False 5 = Inl (ValueError msg_max_8_bytes)
   \<and> CANMessage_init 0x300 [1, 2, 3, 4, 5, 6, 7, 8] False 5 =
     Inr \<lparr>can_id = 0x300, data = [1, 2, 3, 4, 5, 6, 7, 8], is_extended = False, timestamp = 5, dlc = 8\<rparr>"
  using C8_frame_construction_bounds [of "[1, 2, 3]" "[1, 2, 3, 4, 5, 6, 7, 8, 9]"
      "[1, 2, 3, 4, 5, 6, 7, 8]" "0x300" False 5 "0x100" False]
  by simp

text \<open>
  C10. Only the upper bound of the identifier is checked: for every negative identifier
  and every payload of at most 8 bytes the constructor succeeds in either mode, and the
  frame carries that identifier, which is outside \<open>0..0x7FF\<close> and \<open>0..0x1FFFFFFF\<close>.
\<close>

theorem C10_negative_identifier_accepted:
  assumes "cid < 0" and "length d \<le> 8"
  shows "CANMessage_init cid d ext now =
           Inr \<lparr>can_id = cid, data = d, is_extended = ext, timestamp = now, dlc = length d\<rparr>
       \<and> \<not> (0 \<le> cid \<and> cid \<le> (if ext then 0x1FFFFFFF else 0x7FF))"
  using assms by (simp add: CANMessage_init_def Let_def)

text \<open>C10 at the identifier \<open>-1\<close>, in both modes.\<close>

theorem C10_negative_identifier_accepted_witness:
  "CANMessage_init (- 1) [1, 2] False 5 =
     Inr \<lparr>can_id = - 1, data = [1, 2], is_extended = False, timestamp = 5, dlc = 2\<rparr>
   \<and> CANMessage_init (- 1) [1, 2] True 5 =
     Inr \<lparr>can_id = - 1, data = [1, 2], is_extended = True, timestamp = 5, dlc = 2\<rparr>"
  using C10_negative_identifier_accepted [of "- 1" "[1, 2]" False 5]
    C10_negative_identifier_accepted [of "- 1" "[1, 2]" True 5]
  by simp

section \<open>The counters of the transport\<close>

lemma send_message_counters:
  "messages_sent s \<le> messages_sent (snd (send_message s cid d ext now))
   \<and> messages_received (snd (send_message s cid d ext now)) = messages_received s
   \<and> error_count s \<le> error_count (snd (send_message s cid d ext now))"
  by (simp add: send_message_def update_bus_load_def Let_def split: sum.splits)

text \<open>
  C2, as the code has it. Under every operation \<^verbatim>\<open>messages_sent\<close> and
  \<^verbatim>\<open>messages_received\<close> do not decrease; \<^verbatim>\<open>error_count\<close> does not decrease under any
  operation other than \<^verbatim>\<open>start()\<close>, which sets it to 0.
\<close>

theorem C2_counters_except_start:
  "messages_sent s \<le> messages_sent (can_exec s now op)
   \<and> messages_received s \<le> messages_received (can_exec s now op)
   \<and> (if op = Start then error_count (can_exec s now op) = 0
      else error_count s \<le> error_count (can_exec s now op))"
proof (cases op)
  case (SendMessage cid d ext)
  then show ?thesis using send_message_counters [of s cid d ext now] by simp
next
  case (SendSensorData k v)
  show ?thesis
  proof (cases "send_sensor_data s k v now")
    case (Inl e)
    with SendSensorData show ?thesis by simp
  next
    case (Inr r)
    then obtain d where r: "r = send_message s (dict_get sensor_ids k 0x1FF) (d @ [0, 0, 0, 0]) False now"
      by (auto simp: send_sensor_data_def Let_def split: sum.splits)
    show ?thesis
      using SendSensorData Inr r
        send_message_counters [of s "dict_get sensor_ids k 0x1FF" "d @ [0, 0, 0, 0]" False now]
      by (simp add: case_prod_unfold)
  qed
next
  case (SendActuatorCommand k c v)
  then show ?thesis
    using send_message_counters [of s] by (simp add: send_actuator_command_def Let_def)
qed (auto simp: can_start_def can_stop_def receive_message_def simulate_incoming_message_def
      add_rx_filter_def clear_rx_filters_def update_bus_load_def Let_def
      split: sum.splits list.splits)

text \<open>C2 as amended, at \<^verbatim>\<open>start()\<close> and at a refused send on a bus that has one error.\<close>

theorem C2_counters_except_start_witness:
  "error_count (can_exec bus_after_failed_send 0 Start) = 0
   \<and> error_count bus_after_failed_send
       \<le> error_count (can_exec bus_after_failed_send 0 (SendMessage 0x800 [] False))"
  using C2_counters_except_start [of bus_after_failed_send 0 Start]
    C2_counters_except_start [of bus_after_failed_send 0 "SendMessage 0x800 [] False"]
  by simp

text \<open>
  C2 as stated fails: on a bus whose \<^verbatim>\<open>error_count\<close> is 1, \<^verbatim>\<open>start()\<close> leaves it at 0.
\<close>

theorem C2_start_lowers_error_count:
  "error_count bus_after_failed_send = 1
   \<and> error_count (can_exec bus_after_failed_send 0 Start) < error_count bus_after_failed_send"
  by (simp add: bus_after_failed_send_def bus_started_def can_start_def CANProtocol_init_def
      send_message_def CANMessage_init_def Let_def)

section \<open>The bus load\<close>

lemmas bus_examples = bus_after_inject_def bus_started_def can_start_def CANProtocol_init_def
  simulate_incoming_message_def CANMessage_init_def frame_payload_def Let_def
  bus_after_inject_send_def send_message_def update_bus_load_def
  bus_after_inject_send_receive_def receive_message_def

text \<open>
  C3 on the code. On the started bus (no frame queued, load 0) an injected frame is queued
  for reception while \<^verbatim>\<open>bus_load\<close> stays 0, where the formula gives 13/250 for one
  queued frame at 250 kbit/s. A send then recomputes the load for two queued frames
  (13/125); the receive that follows removes a frame and leaves the load at 13/125, where
  the formula gives 13/250. Only \<^verbatim>\<open>send_message\<close> calls \<^verbatim>\<open>_update_bus_load\<close>.
\<close>

theorem C3_bus_load_stale_after_inject_and_receive:
  "tx_buffer bus_started = [] \<and> rx_buffer bus_started = [] \<and> bus_load bus_started = 0
   \<and> length (tx_buffer bus_after_inject) = 0 \<and> length (rx_buffer bus_after_inject) = 1
   \<and> bus_load bus_after_inject = 0
   \<and> bus_load (update_bus_load bus_after_inject) = 13 / 250
   \<and> length (tx_buffer bus_after_inject_send) = 1
   \<and> length (rx_buffer bus_after_inject_send) = 1
   \<and> bus_load bus_after_inject_send = 13 / 125
   \<and> length (tx_buffer bus_after_inject_send_receive) = 1
   \<and> length (rx_buffer bus_after_inject_send_receive) = 0
   \<and> bus_load bus_after_inject_send_receive = 13 / 125
   \<and> bus_load (update_bus_load bus_after_inject_send_receive) = 13 / 250"
  by (simp add: bus_examples)

section \<open>The irrigation controller\<close>

subsection \<open>The zone dictionary\<close>

lemma dict_has_dict_set: "dict_has (dict_set zs k v) n = (n = k \<or> dict_has zs n)"
  by (induction zs k v rule: dict_set.induct) (auto simp: dict_has_def)

lemma map_of_dict_set: "map_of (dict_set zs k v) n = (if n = k then Some v else map_of zs n)"
  by (induction zs k v rule: dict_set.induct) auto

lemma filter_snd_dict_set_True: "filter snd (dict_set zs k True) \<noteq> []"
  by (induction zs k True rule: dict_set.induct) auto

text \<open>The constructor makes every zone of \<open>1..zones\<close> a key.\<close>

lemma init_zones_indexed:
  "\<forall>n\<in>{1..zones}. dict_has (zones_status (IrrigationSystem_init sid zones mx)) n"
  by (auto simp: IrrigationSystem_init_def dict_has_def image_iff)

subsection \<open>Opening zones\<close>

text \<open>
  With \<^verbatim>\<open>num_zones\<close> not 0, \<^verbatim>\<open>open_zone\<close> returns; it assigns the zone dictionary, the
  flow and the pressure only.
\<close>

lemma open_zone_effect:
  assumes "num_zones s \<noteq> 0"
  shows "\<exists>ok s' g'. open_zone s g n = (Returned ok, s', g')
     \<and> irr_is_active s' = irr_is_active s \<and> num_zones s' = num_zones s
     \<and> irr_mode s' = irr_mode s \<and> target_soil_moisture s' = target_soil_moisture s
     \<and> operation_time s' = operation_time s \<and> total_volume s' = total_volume s
     \<and> last_irrigation s' = last_irrigation s
     \<and> zones_status s' =
         (if irr_is_active s \<and> dict_has (zones_status s) n
          then dict_set (zones_status s) n True else zones_status s)"
  using assms
  by (auto simp: open_zone_def update_flow_and_pressure_def Let_def uniform_def
      filter_snd_dict_set_True)

lemma open_zones_effect:
  assumes "num_zones s \<noteq> 0"
  shows "\<exists>s' g'. open_zones s g ns = (Returned (), s', g')
     \<and> irr_is_active s' = irr_is_active s \<and> num_zones s' = num_zones s
     \<and> irr_mode s' = irr_mode s \<and> target_soil_moisture s' = target_soil_moisture s
     \<and> operation_time s' = operation_time s \<and> total_volume s' = total_volume s
     \<and> last_irrigation s' = last_irrigation s
     \<and> (\<forall>n. dict_has (zones_status s') n = dict_has (zones_status s) n)
     \<and> (\<forall>n. map_of (zones_status s) n = Some True \<longrightarrow> map_of (zones_status s') n = Some True)
     \<and> (irr_is_active s \<longrightarrow>
          (\<forall>n\<in>set ns. dict_has (zones_status s) n \<longrightarrow> map_of (zones_status s') n = Some True))"
  using assms
proof (induction ns arbitrary: s g)
  case Nil
  then show ?case by simp
next
  case (Cons z rest)
  from open_zone_effect [OF Cons.prems, of g z]
  obtain ok s1 g1 where step: "open_zone s g z = (Returned ok, s1, g1)"
    and keep: "irr_is_active s1 = irr_is_active s" "num_zones s1 = num_zones s"
      "irr_mode s1 = irr_mode s" "target_soil_moisture s1 = target_soil_moisture s"
      "operation_time s1 = operation_time s" "total_volume s1 = total_volume s"
      "last_irrigation s1 = last_irrigation s"
    and zs1: "zones_status s1 =
         (if irr_is_active s \<and> dict_has (zones_status s) z
          then dict_set (zones_status s) z True else zones_status s)"
    by blast
  have has1: "dict_has (zones_status s1) n = dict_has (zones_status s) n" for n
    using zs1 by (auto simp: dict_has_dict_set)
  have true1: "map_of (zones_status s) n = Some True \<Longrightarrow> map_of (zones_status s1) n = Some True" for n
    using zs1 by (auto simp: map_of_dict_set)
  have z1: "irr_is_active s \<Longrightarrow> dict_has (zones_status s) z \<Longrightarrow> map_of (zones_status s1) z = Some True"
    using zs1 by (simp add: map_of_dict_set)
  from keep Cons.prems have nz1: "num_zones s1 \<noteq> 0" by simp
  from Cons.IH [OF nz1, of g1]
  obtain s' g' where rest: "open_zones s1 g1 rest = (Returned (), s', g')"
    and keep': "irr_is_active s' = irr_is_active s1" "num_zones s' = num_zones s1"
      "irr_mode s' = irr_mode s1" "target_soil_moisture s' = target_soil_moisture s1"
      "operation_time s' = operation_time s1" "total_volume s' = total_volume s1"
      "last_irrigation s' = last_irrigation s1"
    and has': "\<forall>n. dict_has (zones_status s') n = dict_has (zones_status s1) n"
    and true': "\<forall>n. map_of (zones_status s1) n = Some True \<longrightarrow> map_of (zones_status s') n = Some True"
    and opened': "irr_is_active s1 \<longrightarrow>
          (\<forall>n\<in>set rest. dict_has (zones_status s1) n \<longrightarrow> map_of (zones_status s') n = Some True)"
    by blast
  have "open_zones s g (z # rest) = (Returned (), s', g')"
    using step rest by simp
  moreover have "\<forall>n. dict_has (zones_status s') n = dict_has (zones_status s) n"
    using has' has1 by simp
  moreover have "\<forall>n. map_of (zones_status s) n = Some True \<longrightarrow> map_of (zones_status s') n = Some True"
    using true' true1 by blast
  moreover have "irr_is_active s \<longrightarrow>
          (\<forall>n\<in>set (z # rest). dict_has (zones_status s) n \<longrightarrow> map_of (zones_status s') n = Some True)"
    using opened' keep(1) has1 z1 true' by auto
  ultimately show ?case using keep keep' by simp
qed

text \<open>
  A triggered \<^verbatim>\<open>auto_irrigate\<close> returns \<^verbatim>\<open>True\<close>: the loop runs only when
  \<^verbatim>\<open>num_zones\<close> is at least 1, so the division in \<^verbatim>\<open>_update_flow_and_pressure\<close> is
  defined. The statistics are as before, and every zone of \<open>1..num_zones\<close> that is a key
  is open.
\<close>

lemma auto_irrigate_triggered:
  assumes "irr_is_active s" and "irr_mode s = IrrigationMode.AUTOMATIC"
    and "m < target_soil_moisture s"
  shows "\<exists>s' g'. auto_irrigate s g m = (Returned True, s', g')
     \<and> operation_time s' = operation_time s \<and> total_volume s' = total_volume s
     \<and> last_irrigation s' = last_irrigation s
     \<and> (\<forall>n\<in>{1..num_zones s}. dict_has (zones_status s) n \<longrightarrow> map_of (zones_status s') n = Some True)"
proof (cases "num_zones s = 0")
  case True
  with assms show ?thesis by (simp add: auto_irrigate_def Let_def)
next
  case False
  from open_zones_effect [OF False, of g "[1..num_zones s]"] assms
  show ?thesis by (auto simp: auto_irrigate_def Let_def)
qed

subsection \<open>The example controllers\<close>

lemma upto_1_4: "[1..4::int] = [1, 2, 3, 4]"
  by code_simp

lemma set_1_4: "{1..4::int} = {1, 2, 3, 4}"
  by auto

lemmas irr_examples = irr_fresh_def IrrigationSystem_init_def upto_1_4 close_zone_def
  open_zone_def dict_has_def update_flow_and_pressure_def irr_start_def uniform_def
  no_jitter_def irrigate_zone_def Let_def auto_irrigate_def

lemma irr_zone_1_open_eq:
  "irr_zone_1_open = irr_fresh\<lparr>irr_is_active := True, irr_mode := IrrigationMode.MANUAL,
     current_flow_rate := 25, current_pressure := 2.5,
     zones_status := [(1, True), (2, False), (3, False), (4, False)]\<rparr>"
  by (simp add: irr_zone_1_open_def irr_examples)

lemma irr_auto_fields:
  "irr_is_active irr_auto" "irr_mode irr_auto = IrrigationMode.AUTOMATIC"
  "num_zones irr_auto = 4" "target_soil_moisture irr_auto = 60"
  "zones_status irr_auto = [(1, False), (2, False), (3, False), (4, False)]"
  "operation_time irr_auto = 0" "total_volume irr_auto = 0" "last_irrigation irr_auto = None"
  by (simp_all add: irr_auto_def irr_start_def irr_fresh_def IrrigationSystem_init_def upto_1_4)

subsection \<open>Closing a zone of an inactive controller\<close>

text \<open>
  C4 on the code. On the controller as constructed, which is inactive, \<^verbatim>\<open>close_zone(1)\<close>
  returns \<^verbatim>\<open>True\<close>: the method does not read \<^verbatim>\<open>is_active\<close>.
\<close>

theorem C4_close_zone_inactive_returns_true:
  "\<not> irr_is_active irr_fresh
   \<and> close_zone irr_fresh no_jitter 1 = (Returned True, irr_fresh, no_jitter)
   \<and> open_zone irr_fresh no_jitter 1 = (Returned False, irr_fresh, no_jitter)"
  by (simp add: irr_examples)

text \<open>
  On an inactive controller whose zone 1 is open, \<^verbatim>\<open>close_zone(1)\<close> closes the zone and
  sets the flow and the pressure to 0.
\<close>

lemma close_zone_inactive_changes_state:
  "close_zone (irr_zone_1_open\<lparr>irr_is_active := False\<rparr>) no_jitter 1 =
     (Returned True,
      irr_zone_1_open\<lparr>irr_is_active := False, current_flow_rate := 0, current_pressure := 0,
        zones_status := [(1, False), (2, False), (3, False), (4, False)]\<rparr>,
      no_jitter)"
  by (simp add: irr_zone_1_open_eq irr_examples)

subsection \<open>Irrigating a zone that does not exist\<close>

text \<open>
  C5 on the code. On the active controller with zone 1 open (flow 25 L/min),
  \<^verbatim>\<open>irrigate_zone(9, 10)\<close> at time 7 returns \<^verbatim>\<open>None\<close> as every call does, adds 10 minutes
  to \<^verbatim>\<open>operation_time\<close> and 250 litres to \<^verbatim>\<open>total_volume\<close>, and stamps
  \<^verbatim>\<open>last_irrigation\<close>; the zones are as before.
\<close>

theorem C5_irrigate_unknown_zone_accumulates:
  "irr_is_active irr_zone_1_open \<and> num_zones irr_zone_1_open = 4
   \<and> \<not> dict_has (zones_status irr_zone_1_open) 9
   \<and> operation_time irr_zone_1_open = 0 \<and> total_volume irr_zone_1_open = 0
   \<and> last_irrigation irr_zone_1_open = None
   \<and> irrigate_zone irr_zone_1_open no_jitter 9 10 7 =
       (Returned (),
        irr_zone_1_open\<lparr>operation_time := 10, total_volume := 250, last_irrigation := Some 7\<rparr>,
        no_jitter)"
  by (simp add: irr_zone_1_open_eq irr_examples)

subsection \<open>Automatic irrigation\<close>

text \<open>
  A triggered \<^verbatim>\<open>auto_irrigate\<close> returns \<^verbatim>\<open>True\<close> and assigns none of \<^verbatim>\<open>operation_time\<close>,
  \<^verbatim>\<open>total_volume\<close> and \<^verbatim>\<open>last_irrigation\<close>, whatever the controller and the moisture.
\<close>

lemma auto_irrigate_assigns_no_statistic:
  assumes "irr_is_active s" and "irr_mode s = IrrigationMode.AUTOMATIC"
    and "m < target_soil_moisture s"
  shows "fst (auto_irrigate s g m) = Returned True
       \<and> operation_time (fst (snd (auto_irrigate s g m))) = operation_time s
       \<and> total_volume (fst (snd (auto_irrigate s g m))) = total_volume s
       \<and> last_irrigation (fst (snd (auto_irrigate s g m))) = last_irrigation s"
  using auto_irrigate_triggered [OF assms, of g] by auto

text \<open>
  C7 on the code. On the active controller in automatic mode with the target 60,
  \<^verbatim>\<open>auto_irrigate(45)\<close> returns \<^verbatim>\<open>True\<close> and computes the duration
  \<open>min 30 ((60 - 45) * 2) = 30\<close>, but \<^verbatim>\<open>operation_time\<close> is 0 before and after the call, not
  30: the duration is printed and dropped, where \<^verbatim>\<open>irrigate_zone\<close> adds its duration to
  \<^verbatim>\<open>operation_time\<close>.
\<close>

theorem C7_duration_not_accumulated:
  "irr_is_active irr_auto \<and> irr_mode irr_auto = IrrigationMode.AUTOMATIC
   \<and> 45 < target_soil_moisture irr_auto
   \<and> fst (auto_irrigate irr_auto no_jitter 45) = Returned True
   \<and> auto_irrigate_duration irr_auto 45 = 30
   \<and> min 30 ((target_soil_moisture irr_auto - 45) * 2) = 30
   \<and> operation_time irr_auto = 0
   \<and> operation_time (fst (snd (auto_irrigate irr_auto no_jitter 45))) = 0
   \<and> operation_time (fst (snd (auto_irrigate irr_auto no_jitter 45)))
       \<noteq> operation_time irr_auto + min 30 ((target_soil_moisture irr_auto - 45) * 2)"
  by (simp add: irr_auto_def auto_irrigate_duration_def irr_examples)

text \<open>
  C7 on the code, read off at that call: the guard of \<^verbatim>\<open>auto_irrigate\<close> is passed (the
  controller is active and automatic), the call returns \<^verbatim>\<open>True\<close>, and \<^verbatim>\<open>operation_time\<close>
  stays 0.
\<close>

theorem C7_duration_not_accumulated_witness:
  "irr_is_active irr_auto \<and> irr_mode irr_auto = IrrigationMode.AUTOMATIC
   \<and> fst (auto_irrigate irr_auto no_jitter 45) = Returned True
   \<and> operation_time (fst (snd (auto_irrigate irr_auto no_jitter 45))) = 0"
  using C7_duration_not_accumulated by simp

text \<open>
  C9. For every active controller in automatic mode whose zones \<open>1..num_zones\<close> are keys
  of the zone dictionary (as the constructor makes them): with a moisture strictly below
  the target \<^verbatim>\<open>auto_irrigate\<close> returns \<^verbatim>\<open>True\<close> and every zone of \<open>1..num_zones\<close> is
  open afterwards; with a moisture at or above the target it returns \<^verbatim>\<open>False\<close> and the
  controller, its zones included, is as it was.
\<close>

theorem C9_auto_irrigate_opens_all_zones:
  assumes "irr_is_active s" and "irr_mode s = IrrigationMode.AUTOMATIC"
    and "\<forall>n\<in>{1..num_zones s}. dict_has (zones_status s) n"
  shows "(m < target_soil_moisture s \<longrightarrow>
            fst (auto_irrigate s g m) = Returned True
          \<and> (\<forall>n\<in>{1..num_zones s}.
                map_of (zones_status (fst (snd (auto_irrigate s g m)))) n = Some True))
       \<and> (target_soil_moisture s \<le> m \<longrightarrow> auto_irrigate s g m = (Returned False, s, g))"
proof (intro conjI impI)
  assume low: "m < target_soil_moisture s"
  from auto_irrigate_triggered [OF assms(1,2) low, of g]
  obtain s' g' where r: "auto_irrigate s g m = (Returned True, s', g')"
    and opened: "\<forall>n\<in>{1..num_zones s}. dict_has (zones_status s) n \<longrightarrow>
                   map_of (zones_status s') n = Some True"
    by blast
  show "fst (auto_irrigate s g m) = Returned True" using r by simp
  show "\<forall>n\<in>{1..num_zones s}.
          map_of (zones_status (fst (snd (auto_irrigate s g m)))) n = Some True"
    using r opened assms(3) by simp
next
  assume "target_soil_moisture s \<le> m"
  then show "auto_irrigate s g m = (Returned False, s, g)"
    by (simp add: auto_irrigate_def)
qed

text \<open>C9 at the target 60, with the moisture 45 and with the moisture 65.\<close>

theorem C9_auto_irrigate_opens_all_zones_witness:
  "fst (auto_irrigate irr_auto no_jitter 45) = Returned True
   \<and> map_of (zones_status (fst (snd (auto_irrigate irr_auto no_jitter 45)))) 1 = Some True
   \<and> map_of (zones_status (fst (snd (auto_irrigate irr_auto no_jitter 45)))) 2 = Some True
   \<and> map_of (zones_status (fst (snd (auto_irrigate irr_auto no_jitter 45)))) 3 = Some True
   \<and> map_of (zones_status (fst (snd (auto_irrigate irr_auto no_jitter 45)))) 4 = Some True
   \<and> auto_irrigate irr_auto no_jitter 65 = (Returned False, irr_auto, no_jitter)"
  using C9_auto_irrigate_opens_all_zones [of irr_auto 45 no_jitter]
    C9_auto_irrigate_opens_all_zones [of irr_auto 65 no_jitter]
  by (simp add: irr_auto_fields set_1_4 dict_has_def)

section \<open>The fertilization controller\<close>

lemma fert_loaded_rate_80_eq:
  "fert_loaded_rate_80 = fert_fresh\<lparr>fert_is_active := True, fert_mode := MANUAL,
      current_fertilizer := Some NPK_15_15_15, tank_level := 300, application_rate := 80\<rparr>"
  by (simp add: fert_loaded_rate_80_def fert_fresh_def FertilizerSystem_init_def
      load_fertilizer_def fert_start_def set_application_rate_def)

lemma py_round_0: "py_round 0 n = 0"
  by (simp add: py_round_def round_half_even_def)

lemmas fert_examples = fert_loaded_rate_80_eq fert_fresh_def FertilizerSystem_init_def
  fert_apply_def Let_def py_round_def round_half_even_def

subsection \<open>Applying fertilizer\<close>

text \<open>
  C1. For every controller that is active, has a product loaded and a rate other than 0,
  and for every area \<open>a \<ge> 0\<close>, \<^verbatim>\<open>apply(a)\<close> returns, and the tank level afterwards is not
  negative. If \<open>application_rate * a \<le> tank_level\<close>, the tank level drops by exactly
  \<open>application_rate * a\<close> and the area covered grows by \<open>a\<close>; otherwise the amount is
  clamped to the old tank level, the area covered grows by \<open>tank_level / application_rate\<close>
  and the tank level is 0.
\<close>

theorem C1_apply_never_overdraws:
  assumes "fert_is_active s" and "current_fertilizer s = Some product"
    and "application_rate s \<noteq> 0" and "0 \<le> a"
  shows "\<exists>r s'. fert_apply s a now = Inr (r, s') \<and> 0 \<le> tank_level s'
     \<and> (if application_rate s * a \<le> tank_level s
         then tank_level s' = tank_level s - application_rate s * a
            \<and> total_applied s' = total_applied s + application_rate s * a
            \<and> area_covered s' = area_covered s + a
         else tank_level s' = 0
            \<and> total_applied s' = total_applied s + tank_level s
            \<and> area_covered s' = area_covered s + tank_level s / application_rate s)"
  using assms by (simp add: fert_apply_def Let_def)

text \<open>
  C1 at the rate 80, the tank level 300 and the area 5: 400 kg would be needed, so 3.75 ha
  are covered and the tank is empty afterwards.
\<close>

theorem C1_apply_never_overdraws_witness:
  "fert_is_active fert_loaded_rate_80
   \<and> current_fertilizer fert_loaded_rate_80 = Some NPK_15_15_15
   \<and> application_rate fert_loaded_rate_80 = 80 \<and> tank_level fert_loaded_rate_80 = 300
   \<and> area_covered fert_loaded_rate_80 = 0
   \<and> (\<exists>r s'. fert_apply fert_loaded_rate_80 5 0 = Inr (r, s') \<and> tank_level s' = 0
        \<and> area_covered s' = 3.75 \<and> total_applied s' = 300)"
  using C1_apply_never_overdraws [of fert_loaded_rate_80 NPK_15_15_15 5 0]
  by (auto simp: fert_loaded_rate_80_eq fert_fresh_def FertilizerSystem_init_def)

text \<open>The whole result of that call: the report and the controller.\<close>

lemma apply_example_report:
  "fert_apply fert_loaded_rate_80 5 0 =
     Inr (\<lparr>area_hectares = 3.75, amount_applied_kg = 300, fertilizer_type = ''NPK 15-15-15'',
            app_application_rate = 80, tank_remaining_kg = 0,
            npk_applied = \<lparr>npk_N = 45, npk_P = 45, npk_K = 45\<rparr>\<rparr>,
          fert_loaded_rate_80\<lparr>tank_level := 0, total_applied := 300, area_covered := 3.75,
            applications_count := 1, last_application := Some 0\<rparr>)"
  by (simp add: fert_examples)

subsection \<open>The binary exponent\<close>

text \<open>
  \<open>bit_length\<close> and \<open>exponent2\<close> locate a positive real between two consecutive powers
  of 2, which is what the spacing used by \<open>fl\<close> rests on.
\<close>

lemma bit_length_pos: "0 < n \<Longrightarrow> bit_length n = Suc (bit_length (n div 2))"
  by (subst bit_length.simps) simp

lemma bit_length_bounds:
  "0 < n \<Longrightarrow> 2 ^ (bit_length n - 1) \<le> n \<and> n < 2 ^ bit_length n"
proof (induction n rule: bit_length.induct)
  case (1 n)
  show ?case
  proof (cases "n div 2 = 0")
    case True
    with "1.prems" have n1: "n = 1" by (simp add: div_eq_0_iff)
    have "bit_length 0 = 0" by (subst bit_length.simps) simp
    then have "bit_length 1 = 1" using bit_length_pos [of 1] by simp
    then show ?thesis using n1 by simp
  next
    case False
    then have pos: "0 < n div 2" by simp
    have nz: "n \<noteq> 0" using "1.prems" by simp
    from "1.IH" [OF nz pos]
    have ih: "2 ^ (bit_length (n div 2) - 1) \<le> n div 2" "n div 2 < 2 ^ bit_length (n div 2)"
      by auto
    have bl: "bit_length n = Suc (bit_length (n div 2))"
      using "1.prems" by (rule bit_length_pos)
    obtain k where k: "bit_length (n div 2) = Suc k"
      using bit_length_pos [OF pos] by blast
    have "2 ^ (bit_length n - 1) = 2 * 2 ^ (bit_length (n div 2) - 1)"
      unfolding bl k by simp
    also have "\<dots> \<le> 2 * (n div 2)" using ih(1) by simp
    also have "\<dots> \<le> n" by simp
    finally have lo: "2 ^ (bit_length n - 1) \<le> n" .
    have "n < 2 * (n div 2) + 2" by linarith
    also have "\<dots> \<le> 2 * 2 ^ bit_length (n div 2)" using ih(2) by simp
    finally have hi: "n < 2 ^ bit_length n" unfolding bl by simp
    from lo hi show ?thesis by simp
  qed
qed

lemma pow2_nonneg_exp: "0 \<le> e \<Longrightarrow> pow2 e = 2 ^ nat e"
  by (simp add: pow2_def)

lemma pow2_neg_exp: "e \<le> 0 \<Longrightarrow> pow2 e = 1 / 2 ^ nat (- e)"
  by (cases "e = 0") (simp_all add: pow2_def)

lemma real_nat_succ_le: "(m::nat) < k \<Longrightarrow> real m + 1 \<le> real k"
  by linarith

lemma exponent2_bounds_ge1:
  assumes "1 \<le> x"
  shows "pow2 (exponent2 x) \<le> x \<and> x < pow2 (exponent2 x + 1)"
proof -
  define n where "n = nat \<lfloor>x\<rfloor>"
  have fl1: "1 \<le> \<lfloor>x\<rfloor>" using assms by linarith
  have npos: "0 < n" using fl1 by (simp add: n_def)
  have e: "exponent2 x = int (bit_length n) - 1" using assms by (simp add: exponent2_def n_def)
  from bit_length_bounds [OF npos]
  have lo: "2 ^ (bit_length n - 1) \<le> n" and hi: "n < 2 ^ bit_length n" by auto
  obtain k where k: "bit_length n = Suc k" using bit_length_pos [OF npos] by blast
  have rn: "real n = real_of_int \<lfloor>x\<rfloor>" using fl1 by (simp add: n_def)
  have a: "real n \<le> x" unfolding rn by linarith
  have b: "x < real n + 1" unfolding rn by linarith
  have c: "(2::real) ^ k \<le> real n"
    using lo unfolding k by (metis diff_Suc_1 of_nat_le_iff of_nat_numeral of_nat_power)
  have d: "real n + 1 \<le> 2 ^ Suc k"
    using real_nat_succ_le [OF hi] unfolding k by simp
  have p1: "pow2 (exponent2 x) = 2 ^ k" unfolding e k by (simp add: pow2_def)
  have p2: "pow2 (exponent2 x + 1) = 2 ^ Suc k"
    unfolding e k by (simp add: pow2_def nat_add_distrib)
  show ?thesis unfolding p1 p2 using a b c d by linarith
qed

lemma exponent2_bounds_lt1:
  assumes "0 < x" and "x < 1"
  shows "pow2 (exponent2 x) \<le> x \<and> x < pow2 (exponent2 x + 1)"
proof -
  define y where "y = 1 / x"
  define m where "m = nat (\<lceil>y\<rceil> - 1)"
  have y1: "1 < y" using assms by (simp add: y_def)
  have c2: "2 \<le> \<lceil>y\<rceil>" using y1 by linarith
  have mpos: "0 < m" using c2 by (simp add: m_def)
  have e: "exponent2 x = - int (bit_length m)"
    using assms by (simp add: exponent2_def m_def y_def)
  from bit_length_bounds [OF mpos]
  have lo: "2 ^ (bit_length m - 1) \<le> m" and hi: "m < 2 ^ bit_length m" by auto
  obtain k where k: "bit_length m = Suc k" using bit_length_pos [OF mpos] by blast
  have rm: "real m = real_of_int \<lceil>y\<rceil> - 1" using c2 by (simp add: m_def)
  have m1: "real m < y" unfolding rm by linarith
  have m2: "y \<le> real m + 1" unfolding rm by linarith
  have c: "(2::real) ^ k \<le> real m"
    using lo unfolding k by (metis diff_Suc_1 of_nat_le_iff of_nat_numeral of_nat_power)
  have d: "real m + 1 \<le> 2 ^ Suc k"
    using real_nat_succ_le [OF hi] unfolding k by simp
  have l1: "2 ^ k < y" using c m1 by linarith
  have l2: "y \<le> 2 ^ Suc k" using d m2 by linarith
  have p1: "pow2 (exponent2 x) = 1 / 2 ^ Suc k"
    unfolding e k by (simp add: pow2_def nat_add_distrib)
  have p2: "pow2 (exponent2 x + 1) = 1 / 2 ^ k"
    unfolding e k by (cases k) (simp_all add: pow2_def nat_add_distrib)
  have xy: "x = 1 / y" using assms by (simp add: y_def)
  have ypos: "0 < y" using y1 by simp
  have "1 / 2 ^ Suc k \<le> 1 / y"
    using l2 ypos by (intro divide_left_mono) auto
  moreover have "1 / y < 1 / 2 ^ k"
    using l1 ypos by (intro divide_strict_left_mono) auto
  ultimately have "1 / 2 ^ Suc k \<le> x \<and> x < 1 / 2 ^ k"
    using xy by simp
  then show ?thesis using p1 p2 by simp
qed

lemma exponent2_bounds:
  assumes "0 < x"
  shows "pow2 (exponent2 x) \<le> x \<and> x < pow2 (exponent2 x + 1)"
  using exponent2_bounds_ge1 [of x] exponent2_bounds_lt1 [of x] assms
  by (cases "1 \<le> x") auto

subsection \<open>The recommendation\<close>

text \<open>
  C6, as the code has it. For every float arithmetic, every controller whose
  \<^verbatim>\<open>target_npk\<close> has the keys N, P and K, and every \<^verbatim>\<open>current_npk\<close> (a missing key counts
  as 0), \<^verbatim>\<open>recommend_fertilizer\<close> returns the deficits \<^verbatim>\<open>max(0, target - current)\<close>; the
  product by the fixed priority (N-deficit above 10: NPK 20-10-10; else P-deficit above 10:
  NPK 04-14-08; else K-deficit above 10: NPK 10-20-20; else sum of the deficits above 15:
  NPK 15-15-15; else none); and as rate \<^verbatim>\<open>round(min(max_rate, sum / 3 * 3), 1)\<close> when a
  product is recommended, 0 otherwise. Every operation is the one of the float arithmetic.
  The method assigns no attribute, so the embedding returns the report alone.
\<close>

theorem C6_recommend_rounded_rate:
  assumes "map_of (target_npk s) ''N'' = Some tN" and "map_of (target_npk s) ''P'' = Some tP"
    and "map_of (target_npk s) ''K'' = Some tK"
    and "dN = py_max_0 fp (f_sub fp (f_of_real fp tN) (dict_get cur ''N'' (f_of_real fp 0)))"
    and "dP = py_max_0 fp (f_sub fp (f_of_real fp tP) (dict_get cur ''P'' (f_of_real fp 0)))"
    and "dK = py_max_0 fp (f_sub fp (f_of_real fp tK) (dict_get cur ''K'' (f_of_real fp 0)))"
    and "dsum = f_sum fp [dN, dP, dK]"
  shows "\<exists>r. recommend_fertilizer fp s cur = Inr r
     \<and> deficits r = [(''N'', dN), (''P'', dP), (''K'', dK)]
     \<and> recommended_fertilizer r =
         (if f_gt fp dN (f_of_real fp 10) then fertilizer_value NPK_20_10_10
          else if f_gt fp dP (f_of_real fp 10) then fertilizer_value NPK_04_14_08
          else if f_gt fp dK (f_of_real fp 10) then fertilizer_value NPK_10_20_20
          else if f_gt fp dsum (f_of_real fp 15) then fertilizer_value NPK_15_15_15
          else ''Nenhum'')
     \<and> recommended_rate_kg_ha r =
         (if f_gt fp dN (f_of_real fp 10) \<or> f_gt fp dP (f_of_real fp 10)
             \<or> f_gt fp dK (f_of_real fp 10) \<or> f_gt fp dsum (f_of_real fp 15)
          then f_round1 fp
                 (py_min fp (f_of_real fp (max_rate s))
                    (f_mul fp (f_div3 fp dsum) (f_of_real fp 3)))
          else f_of_real fp 0)"
proof -
  have dN: "deficit_of fp (target_npk s) cur ''N'' = Inr dN"
    and dP: "deficit_of fp (target_npk s) cur ''P'' = Inr dP"
    and dK: "deficit_of fp (target_npk s) cur ''K'' = Inr dK"
    using assms by (simp_all add: deficit_of_def dict_index_def)
  obtain product why where ch: "choose_fertilizer fp dN dP dK = (product, why)"
    by (cases "choose_fertilizer fp dN dP dK") auto
  have r: "recommend_fertilizer fp s cur =
      Inr \<lparr>rec_current_npk = cur, rec_target_npk = target_npk s,
           deficits = [(''N'', dN), (''P'', dP), (''K'', dK)],
           recommended_fertilizer =
             (case product of Some p \<Rightarrow> fertilizer_value p | None \<Rightarrow> ''Nenhum''),
           recommended_rate_kg_ha =
             (case product of
                Some p \<Rightarrow>
                  f_round1 fp
                    (py_min fp (f_of_real fp (max_rate s))
                       (f_mul fp (f_div3 fp dsum) (f_of_real fp 3)))
              | None \<Rightarrow> f_of_real fp 0),
           reason = why\<rparr>"
    by (simp add: recommend_fertilizer_def dN dP dK ch Let_def assms(7) split: option.split)
  have p: "product =
      (if f_gt fp dN (f_of_real fp 10) then Some NPK_20_10_10
       else if f_gt fp dP (f_of_real fp 10) then Some NPK_04_14_08
       else if f_gt fp dK (f_of_real fp 10) then Some NPK_10_20_20
       else if f_gt fp dsum (f_of_real fp 15) then Some NPK_15_15_15 else None)"
    using ch unfolding choose_fertilizer_def assms(7) by (simp split: if_splits)
  show ?thesis
    unfolding r p by (simp del: fertilizer_value.simps)
qed

lemmas binary64_eval = binary64_def rnd_def fl_def exponent2_def bit_length.simps pow2_def
  round_half_even_def Let_def d_sub_def d_sum_def py_max_0_def py_min_def dict_get_def

text \<open>
  C6 as amended, in binary64, at the soil N 15, P 8, K 25 against the target N 30, P 15,
  K 40: the deficits are 15, 7 and 15, the product is NPK 20-10-10 and the rate is 37.
\<close>

theorem C6_recommend_rounded_rate_witness:
  "\<exists>r. recommend_fertilizer binary64 fert_fresh soil_sample = Inr r
     \<and> deficits r = [(''N'', Finite 15), (''P'', Finite 7), (''K'', Finite 15)]
     \<and> recommended_fertilizer r = ''NPK 20-10-10''
     \<and> recommended_rate_kg_ha r = Finite 37"
proof -
  have t: "map_of (target_npk fert_fresh) ''N'' = Some 30"
    "map_of (target_npk fert_fresh) ''P'' = Some 15"
    "map_of (target_npk fert_fresh) ''K'' = Some 40"
    by (simp_all add: fert_fresh_def FertilizerSystem_init_def)
  have d: "Finite 15 = py_max_0 binary64 (f_sub binary64 (f_of_real binary64 30)
              (dict_get soil_sample ''N'' (f_of_real binary64 0)))"
    "Finite 7 = py_max_0 binary64 (f_sub binary64 (f_of_real binary64 15)
              (dict_get soil_sample ''P'' (f_of_real binary64 0)))"
    "Finite 15 = py_max_0 binary64 (f_sub binary64 (f_of_real binary64 40)
              (dict_get soil_sample ''K'' (f_of_real binary64 0)))"
    by (simp_all add: soil_sample_def binary64_eval)
  have dsum: "Finite 37 = f_sum binary64 [Finite 15, Finite 7, Finite 15]"
    by (simp add: binary64_eval)
  have m: "max_rate fert_fresh = 200"
    by (simp add: fert_fresh_def FertilizerSystem_init_def)
  have gt: "f_gt binary64 (Finite 15) (f_of_real binary64 10)"
    by (simp add: binary64_eval)
  have q: "f_div3 binary64 (Finite 37) = Finite (6943049425529515 / 562949953421312)"
    by (simp add: binary64_eval)
  have rate: "f_round1 binary64
      (py_min binary64 (f_of_real binary64 200)
         (f_mul binary64 (Finite (6943049425529515 / 562949953421312)) (f_of_real binary64 3)))
      = Finite 37"
    by (simp add: binary64_eval)
  from C6_recommend_rounded_rate [OF t d dsum] m gt q rate show ?thesis by simp
qed

text \<open>
  C6 as stated fails. In binary64, with N at 19.625 and P and K on target, the only deficit
  is 10.375, the product is NPK 20-10-10, and \<^verbatim>\<open>min(max_rate, sum / 3 * 3)\<close> is 10.375; the
  rate returned is the float nearest 10.4.
\<close>

theorem C6_rate_is_rounded:
  "recommend_fertilizer binary64 fert_fresh soil_n_low =
     Inr \<lparr>rec_current_npk = soil_n_low,
          rec_target_npk = [(''N'', 30), (''P'', 15), (''K'', 40)],
          deficits = [(''N'', Finite 10.375), (''P'', Finite 0), (''K'', Finite 0)],
          recommended_fertilizer = ''NPK 20-10-10'',
          recommended_rate_kg_ha = Finite (5854679515581645 / 562949953421312),
          reason = ''Alto d'' @ e_acute @ ''ficit de Nitrog'' @ e_circumflex @ ''nio''\<rparr>
   \<and> py_min binary64 (f_of_real binary64 (max_rate fert_fresh))
        (f_mul binary64 (f_div3 binary64 (f_sum binary64 [Finite 10.375, Finite 0, Finite 0]))
           (f_of_real binary64 3))
       = Finite 10.375
   \<and> Finite (5854679515581645 / 562949953421312) \<noteq> Finite 10.375"
  by (simp add: fert_fresh_def FertilizerSystem_init_def soil_n_low_def
      recommend_fertilizer_def deficit_of_def dict_index_def choose_fertilizer_def
      binary64_eval)

text \<open>
  Two soils where the rounding of a single operation decides the result. With N at the
  float nearest 15.15 the product of the mean and 3 is the float above 14.85, and the rate
  is the float nearest 14.9. With P at the float just below 5 the deficit is the float 10,
  not above 10, and nothing is recommended.
\<close>

lemma recommend_n_15_15:
  "recommend_fertilizer binary64 fert_fresh soil_n_15_15 =
     Inr \<lparr>rec_current_npk = soil_n_15_15,
          rec_target_npk = [(''N'', 30), (''P'', 15), (''K'', 40)],
          deficits = [(''N'', Finite (8359806808306483 / 562949953421312)),
                      (''P'', Finite 0), (''K'', Finite 0)],
          recommended_fertilizer = ''NPK 20-10-10'',
          recommended_rate_kg_ha = Finite (8387954305977549 / 562949953421312),
          reason = ''Alto d'' @ e_acute @ ''ficit de Nitrog'' @ e_circumflex @ ''nio''\<rparr>"
  by (simp add: fert_fresh_def FertilizerSystem_init_def soil_n_15_15_def
      recommend_fertilizer_def deficit_of_def dict_index_def choose_fertilizer_def
      binary64_eval)

lemma recommend_p_below_5:
  "recommend_fertilizer binary64 fert_fresh soil_p_below_5 =
     Inr \<lparr>rec_current_npk = soil_p_below_5,
          rec_target_npk = [(''N'', 30), (''P'', 15), (''K'', 40)],
          deficits = [(''N'', Finite 0), (''P'', Finite 10), (''K'', Finite 0)],
          recommended_fertilizer = ''Nenhum'',
          recommended_rate_kg_ha = Finite 0,
          reason = ''N'' @ i_acute @ ''veis adequados''\<rparr>"
  by (simp add: fert_fresh_def FertilizerSystem_init_def soil_p_below_5_def
      recommend_fertilizer_def deficit_of_def dict_index_def choose_fertilizer_def
      binary64_eval)

end
